theory Spec2Isabelle
  imports Main "HOL-Library.AList"
begin

section \<open>Python values, strings and errors\<close>

text \<open>
  The two modules are Python. Strings are modelled as \<^typ>\<open>string\<close>, one \<^typ>\<open>char\<close> per
  code point below 256; integers are Python's unbounded integers, \<^typ>\<open>int\<close>. Every
  exception the code can raise is a value of \<open>error\<close>, and a function that can raise
  returns \<open>error + 'a\<close> with \<open>Inl\<close> for the exception.
\<close>

datatype error =
  TypeError | ValueError | OverflowError | KeyError | IndexError | AttributeError
  | FileNotFoundError | YAMLError | OSError

text \<open>\<open>str(n)\<close> and \<open>"{}".format(n)\<close> of an integer: its decimal digits, with a minus sign.\<close>

fun str_nat :: "nat \<Rightarrow> string" where
  "str_nat n =
     (if n < 10 then [''0123456789'' ! n]
      else str_nat (n div 10) @ [''0123456789'' ! (n mod 10)])"

definition str_int :: "int \<Rightarrow> string" where
  "str_int i = (if i < 0 then CHR ''-'' # str_nat (nat (- i)) else str_nat (nat i))"

section \<open>debug.py: class Debug\<close>

text \<open>
  \<open>_LEVEL_COLOR\<close> is the dictionary of lines 19 to 23; \<open>\033\<close> is the character 27.
\<close>

definition LEVEL_COLOR :: "(int \<times> string) list" where
  "LEVEL_COLOR =
     [(1, CHR 0x1B # ''[0;30;41m''), (2, CHR 0x1B # ''[0;30;42m''), (3, CHR 0x1B # ''[0;30;43m''),
      (4, CHR 0x1B # ''[0;30;44m''), (5, CHR 0x1B # ''[0;30;45m''), (6, CHR 0x1B # ''[0;30;46m''),
      (7, CHR 0x1B # ''[0;30;41m''), (8, CHR 0x1B # ''[0;30;41m''), (9, CHR 0x1B # ''[0;30;42m''),
      (10, CHR 0x1B # ''[0;30;43m'')]"

text \<open>
  A label argument is \<open>None\<close> or a string; \<open>"{}".format(None)\<close> is the text \<open>None\<close>.
  \<open>label_line\<close> is one of the three guarded \<open>print\<close> calls of lines 43 to 48: the line
  is printed when the argument \<^emph>\<open>is\<close> \<open>None\<close>.
\<close>

definition format_label :: "string option \<Rightarrow> string" where
  "format_label l = (case l of None \<Rightarrow> ''None'' | Some s \<Rightarrow> s)"

definition label_line :: "string \<Rightarrow> string \<Rightarrow> string \<Rightarrow> string option \<Rightarrow> string list" where
  "label_line start name ending l =
     (if l = None then [start @ name @ format_label l @ ending] else [])"

text \<open>
  \<open>debug_print\<close> (lines 26 to 50). The first argument is the class attribute \<open>DEBUG\<close>
  read through \<open>self\<close>. The result is the list of lines written to standard output, one
  per \<open>print\<close> call, and the exception that ended the call, if any. The lookup
  \<open>self._LEVEL_COLOR[level]\<close> comes before the first \<open>print\<close>, so a \<open>KeyError\<close> leaves
  nothing printed.
\<close>

definition debug_print ::
  "int \<Rightarrow> int \<Rightarrow> string \<Rightarrow> string option \<Rightarrow> string option \<Rightarrow> string option
     \<Rightarrow> string list \<times> error option" where
  "debug_print DEBUG level message module cls function =
     (if DEBUG \<ge> level then
        (case map_of LEVEL_COLOR level of
           None \<Rightarrow> ([], Some KeyError)
         | Some start \<Rightarrow>
             (let ending = CHR 0x1B # ''[0m'' in
              ([[]]
               @ [start @ ''Debug level: '' @ str_int level @ ending]
               @ label_line start ''Module: '' ending module
               @ label_line start ''Class: '' ending cls
               @ label_line start ''Function: '' ending function
               @ [start @ message @ ending]
               @ [[]], None)))
      else ([], None))"

section \<open>settings.py: values and strings\<close>

text \<open>
  A setting's value is what the YAML loader hands over for a scalar: \<open>None\<close>, a
  \<open>bool\<close>, an \<open>int\<close>, a \<open>float\<close> or a \<open>str\<close>. Containers are outside the model.

  A finite float is its sign, mantissa and binary exponent (the magnitude is the mantissa
  times two to the exponent), together with the text \<open>str\<close> prints for it: Python prints
  the shortest decimal that reads back as the same float, and that text is carried with
  the value rather than computed. The infinities (the flag says negative) and
  not-a-number are values of their own.
\<close>

datatype pyfloat = Finite string bool nat int | Infinity bool | NaN

datatype pyval = PNone | PBool bool | PInt int | PFloat pyfloat | PStr string

text \<open>\<open>str(f)\<close> of a float.\<close>

fun float_str :: "pyfloat \<Rightarrow> string" where
  "float_str (Finite text neg m e) = text"
| "float_str (Infinity neg) = (if neg then ''-inf'' else ''inf'')"
| "float_str NaN = ''nan''"

text \<open>
  \<open>int(f)\<close> of a float: truncation towards zero; \<open>OverflowError\<close> for an infinity and
  \<open>ValueError\<close> for not-a-number.
\<close>

fun float_int :: "pyfloat \<Rightarrow> error + int" where
  "float_int (Finite text neg m e) =
     Inr ((if neg then - 1 else 1)
          * (if 0 \<le> e then int m * 2 ^ nat e else int m div 2 ^ nat (- e)))"
| "float_int (Infinity neg) = Inl OverflowError"
| "float_int NaN = Inl ValueError"

text \<open>
  \<open>str.isspace\<close> on a code point below 256 (the set \<open>str.strip\<close> and the pattern
  \<open>\S\<close> use), and \<open>str.strip()\<close>.
\<close>

definition whitespace :: "char list" where
  "whitespace =
     [CHR 0x09, CHR 0x0A, CHR 0x0B, CHR 0x0C, CHR 0x0D, CHR 0x1C, CHR 0x1D, CHR 0x1E,
      CHR 0x1F, CHR 0x20, CHR 0x85, CHR 0xA0]"

definition isspace :: "char \<Rightarrow> bool" where
  "isspace c = (c \<in> set whitespace)"

definition strip :: "string \<Rightarrow> string" where
  "strip s = rev (dropWhile isspace (rev (dropWhile isspace s)))"

text \<open>
  \<open>str.lower()\<close> on code points below 256: the ASCII capitals and the Latin-1 capitals
  \<open>0xC0..0xDE\<close> (without the multiplication sign \<open>0xD7\<close>) move up by 32.
\<close>

definition lower_char :: "char \<Rightarrow> char" where
  "lower_char c =
     (let n = (of_char c :: nat) in
      if (65 \<le> n \<and> n \<le> 90) \<or> (192 \<le> n \<and> n \<le> 222 \<and> n \<noteq> 215) then char_of (n + 32) else c)"

definition lower :: "string \<Rightarrow> string" where
  "lower s = map lower_char s"

text \<open>\<open>str(value)\<close>.\<close>

fun py_str :: "pyval \<Rightarrow> string" where
  "py_str PNone = ''None''"
| "py_str (PBool b) = (if b then ''True'' else ''False'')"
| "py_str (PInt i) = str_int i"
| "py_str (PFloat f) = float_str f"
| "py_str (PStr s) = s"

text \<open>
  \<open>int(s)\<close> of a string, \<open>None\<close> when it raises \<open>ValueError\<close>. The string loses the
  whitespace \<open>int\<close> skips at both ends (the ASCII whitespace and, of the code points
  from 128 on, the spaces \<open>0x85\<close> and \<open>0xA0\<close>; not the separators \<open>0x1C..0x1F\<close>), may
  carry one sign, and is a run of decimal digits in which single underscores may separate
  digits (Python 3.6 and later; the cap on the number of digits of Python 3.11 is not
  modelled).
\<close>

definition int_space :: "char \<Rightarrow> bool" where
  "int_space c =
     (c \<in> set [CHR 0x09, CHR 0x0A, CHR 0x0B, CHR 0x0C, CHR 0x0D, CHR 0x20, CHR 0x85, CHR 0xA0])"

definition is_digit :: "char \<Rightarrow> bool" where
  "is_digit c = (c \<in> set ''0123456789'')"

definition digit_val :: "char \<Rightarrow> nat" where
  "digit_val c = of_char c - 48"

fun int_digits :: "string \<Rightarrow> nat \<Rightarrow> nat option" where
  "int_digits [] acc = Some acc"
| "int_digits (c # cs) acc =
     (if is_digit c then int_digits cs (10 * acc + digit_val c)
      else if c = CHR ''_'' \<and> cs \<noteq> [] \<and> is_digit (hd cs) then int_digits cs acc
      else None)"

definition int_literal :: "string \<Rightarrow> int option" where
  "int_literal s =
     (let t = rev (dropWhile int_space (rev (dropWhile int_space s)));
          neg = (t \<noteq> [] \<and> hd t = CHR ''-'');
          body = (if t \<noteq> [] \<and> (hd t = CHR ''-'' \<or> hd t = CHR ''+'') then tl t else t)
      in if body = [] \<or> \<not> is_digit (hd body) then None
         else map_option (\<lambda>n. if neg then - int n else int n) (int_digits body 0))"

text \<open>\<open>int(value)\<close>, with the exception it raises.\<close>

fun py_int :: "pyval \<Rightarrow> error + int" where
  "py_int PNone = Inl TypeError"
| "py_int (PBool b) = Inr (if b then 1 else 0)"
| "py_int (PInt i) = Inr i"
| "py_int (PFloat f) = float_int f"
| "py_int (PStr s) = (case int_literal s of None \<Rightarrow> Inl ValueError | Some i \<Rightarrow> Inr i)"

section \<open>settings.py: class Settings\<close>

definition CONFIG_FILE :: string where
  "CONFIG_FILE = ''zipatoserver.conf''"

definition PATH_WITH_SLASH_PARAMETERS :: "string list" where
  "PATH_WITH_SLASH_PARAMETERS =
     [''WEB_API_PATH'', ''WEB_GUI_PATH'', ''WAKEONLAN_PATH'', ''PING_PATH'', ''SSH_PATH'']"

definition PATH_WITHOUT_SLASH_PARAMETERS :: "string list" where
  "PATH_WITHOUT_SLASH_PARAMETERS = [''MESSAGE_LOG'', ''ERROR_LOG'', ''SSH_KEY_FILE'']"

text \<open>\<open>_format_path\<close> (lines 72 to 89) on a string.\<close>

definition format_path :: "string \<Rightarrow> bool \<Rightarrow> string" where
  "format_path path slash =
     (if length path = 0 then path
      else if slash \<and> last path \<noteq> CHR ''/'' then path @ ''/''
      else if \<not> slash \<and> last path = CHR ''/'' then butlast path
      else path)"

text \<open>
  \<open>_format_path\<close> as \<open>_format_value\<close> calls it, on any value: \<open>len(path)\<close> raises
  \<open>TypeError\<close> for \<open>None\<close>, a \<open>bool\<close>, an \<open>int\<close> and a \<open>float\<close>.
\<close>

fun format_path_value :: "pyval \<Rightarrow> bool \<Rightarrow> error + pyval" where
  "format_path_value (PStr path) slash = Inr (PStr (format_path path slash))"
| "format_path_value _ slash = Inl TypeError"

text \<open>
  \<open>_format_value\<close> (lines 91 to 113). The \<open>except\<close> clause of line 112 catches
  \<open>TypeError\<close> and \<open>ValueError\<close>; any other exception of \<open>int(value)\<close> leaves the
  function.
\<close>

definition format_value :: "string \<Rightarrow> pyval \<Rightarrow> error + pyval" where
  "format_value param v =
     (if param \<in> set PATH_WITH_SLASH_PARAMETERS then format_path_value v True
      else if param \<in> set PATH_WITHOUT_SLASH_PARAMETERS then format_path_value v False
      else if lower (py_str v) = ''yes'' \<or> lower (py_str v) = ''true'' then Inr (PBool True)
      else if lower (py_str v) = ''no'' \<or> lower (py_str v) = ''false'' then Inr (PBool False)
      else (case py_int v of
              Inr i \<Rightarrow> Inr (PInt i)
            | Inl e \<Rightarrow> if e = TypeError \<or> e = ValueError then Inr v else Inl e))"

text \<open>\<open>_get_config_file\<close> (lines 36 to 52).\<close>

definition get_config_file :: "string option \<Rightarrow> string \<Rightarrow> string" where
  "get_config_file settings_path program_path =
     (case settings_path of
        Some p \<Rightarrow> format_path p True @ CONFIG_FILE
      | None \<Rightarrow> program_path @ CONFIG_FILE)"

subsection \<open>Loading\<close>

text \<open>
  The file system maps a path to the text of the file there. \<open>yaml.load\<close> is the YAML
  library's and is a parameter: it yields \<open>None\<close> for a text that is not valid YAML (the
  library's \<open>YAMLError\<close>), a mapping with its entries in order, or some other document.
  The class attributes that hold data are a map from attribute name to value;
  \<open>PROGRAM_PATH\<close> is one of them and starts as \<open>None\<close>.
\<close>

type_synonym filesystem = "string \<rightharpoonup> string"

datatype yaml_doc = YMapping "(string \<times> pyval) list" | YOther

type_synonym attrs = "string \<rightharpoonup> pyval"

definition initial_attrs :: attrs where
  "initial_attrs = [''PROGRAM_PATH'' \<mapsto> PNone]"

text \<open>The loop of lines 69 and 70: \<open>setattr\<close> entry by entry, up to the first exception.\<close>

fun set_constants :: "(string \<times> pyval) list \<Rightarrow> attrs \<Rightarrow> (error + unit) \<times> attrs" where
  "set_constants [] st = (Inr (), st)"
| "set_constants ((constant, v) # rest) st =
     (case format_value constant v of
        Inl e \<Rightarrow> (Inl e, st)
      | Inr v' \<Rightarrow> set_constants rest (st(constant \<mapsto> v')))"

text \<open>
  \<open>load_settings_from_yaml\<close> (lines 54 to 70). \<open>program_path\<close> is
  \<open>os.path.dirname(os.path.abspath(__file__)) + '/'\<close>. The assignment to
  \<open>Settings.PROGRAM_PATH\<close> is the first statement, before the file is opened.
\<close>

definition load_settings_from_yaml ::
  "(string \<Rightarrow> yaml_doc option) \<Rightarrow> string \<Rightarrow> string option \<Rightarrow> filesystem \<Rightarrow> attrs
     \<Rightarrow> (error + unit) \<times> attrs" where
  "load_settings_from_yaml yaml_load program_path settings_path fs st =
     (let st1 = st(''PROGRAM_PATH'' \<mapsto> PStr program_path);
          config_file = get_config_file settings_path program_path
      in case fs config_file of
           None \<Rightarrow> (Inl FileNotFoundError, st1)
         | Some text \<Rightarrow>
             (case yaml_load text of
                None \<Rightarrow> (Inl YAMLError, st1)
              | Some YOther \<Rightarrow> (Inl AttributeError, st1)
              | Some (YMapping constants) \<Rightarrow> set_constants constants st1))"

text \<open>A loader that rejects every text, for calls that never reach a successful parse.\<close>

definition reject_all :: "string \<Rightarrow> yaml_doc option" where
  "reject_all text = None"

subsection \<open>Writing\<close>

text \<open>
  \<open>file.readlines()\<close>: the lines of a text, each with its newline; \<open>str.split('\n')\<close>
  and \<open>'\n'.join\<close>. The text of a file is modelled after newline translation.
\<close>

fun readlines :: "string \<Rightarrow> string list" where
  "readlines [] = []"
| "readlines (c # cs) =
     (if c = CHR ''\<newline>'' then [c] # readlines cs
      else (case readlines cs of [] \<Rightarrow> [[c]] | l # ls \<Rightarrow> (c # l) # ls))"

fun split_nl :: "string \<Rightarrow> string list" where
  "split_nl [] = [[]]"
| "split_nl (c # cs) =
     (if c = CHR ''\<newline>'' then [] # split_nl cs
      else (case split_nl cs of [] \<Rightarrow> [[c]] | l # ls \<Rightarrow> (c # l) # ls))"

fun join_nl :: "string list \<Rightarrow> string" where
  "join_nl [] = []"
| "join_nl [l] = l"
| "join_nl (l # ls) = l @ ''\<newline>'' @ join_nl ls"

text \<open>
  \<open>re.match('(.+?):.*', line).group(1)\<close> (line 202): the shortest non-empty prefix
  without a newline that a colon follows; \<open>None\<close> when the pattern does not match.
\<close>

fun upto_colon :: "string \<Rightarrow> string option" where
  "upto_colon [] = None"
| "upto_colon (c # cs) =
     (if c = CHR '':'' then Some []
      else if c = CHR ''\<newline>'' then None
      else map_option (\<lambda>p. c # p) (upto_colon cs))"

definition match_param :: "string \<Rightarrow> string option" where
  "match_param line =
     (case line of
        [] \<Rightarrow> None
      | c # cs \<Rightarrow> if c = CHR ''\<newline>'' then None else map_option (\<lambda>p. c # p) (upto_colon cs))"

text \<open>
  \<open>re.match('\A(\S+):.*\Z', line)\<close> (line 215), group 1: the greedy \<open>\S+\<close> takes the
  leading run without whitespace and gives back to its last colon; the rest of the line
  must hold no newline.
\<close>

definition top_level_param :: "string \<Rightarrow> string option" where
  "top_level_param line =
     (let run = takeWhile (\<lambda>c. \<not> isspace c) line;
          back = dropWhile (\<lambda>c. c \<noteq> CHR '':'') (rev run)
      in if CHR ''\<newline>'' \<in> set line then None
         else (case back of
                 [] \<Rightarrow> None
               | _ # p \<Rightarrow> if p = [] then None else Some (rev p)))"

text \<open>
  The comment scan of lines 195 to 204. \<open>comment\<close> is the pending buffer and
  \<open>param_comments\<close> the dictionary built so far, in insertion order. \<open>lines[i+1]\<close> raises
  \<open>IndexError\<close> past the last line, and \<open>.group(1)\<close> raises \<open>AttributeError\<close> when the
  following line does not match.
\<close>

fun get_all_comments ::
  "string list \<Rightarrow> string list \<Rightarrow> (string \<times> string list) list
     \<Rightarrow> error + (string \<times> string list) list" where
  "get_all_comments [] comment param_comments = Inr param_comments"
| "get_all_comments (line # rest) comment param_comments =
     (if length line > 0 \<and> hd line = CHR ''#'' then
        (case rest of
           [] \<Rightarrow> Inl IndexError
         | nxt # _ \<Rightarrow>
             (case nxt of
                [] \<Rightarrow> Inl IndexError
              | c # _ \<Rightarrow>
                  if c \<noteq> CHR ''#'' then
                    (case match_param nxt of
                       None \<Rightarrow> Inl AttributeError
                     | Some param \<Rightarrow>
                         get_all_comments rest []
                           (AList.update param (comment @ [strip line]) param_comments))
                  else get_all_comments rest (comment @ [strip line]) param_comments))
      else get_all_comments rest comment param_comments)"

text \<open>The loop of lines 206 and 207: every value formatted, up to the first exception.\<close>

fun format_settings :: "(string \<times> pyval) list \<Rightarrow> error + (string \<times> pyval) list" where
  "format_settings [] = Inr []"
| "format_settings ((param, v) # rest) =
     (case format_value param v of
        Inl e \<Rightarrow> Inl e
      | Inr v' \<Rightarrow> (case format_settings rest of Inl e \<Rightarrow> Inl e | Inr rest' \<Rightarrow> Inr ((param, v') # rest')))"

text \<open>
  The loop of lines 213 to 229 over the lines of the dumped YAML: before a line that
  names a top-level parameter an empty line goes in, then the parameter's comment lines,
  and the parameter leaves \<open>param_comments\<close>. Inserted lines are not looked at again.
\<close>

fun insert_comments :: "string list \<Rightarrow> (string \<times> string list) list \<Rightarrow> string list" where
  "insert_comments [] param_comments = []"
| "insert_comments (line # rest) param_comments =
     (case top_level_param line of
        None \<Rightarrow> line # insert_comments rest param_comments
      | Some param \<Rightarrow>
          (case map_of param_comments param of
             None \<Rightarrow> [] # line # insert_comments rest param_comments
           | Some comments \<Rightarrow>
               [] # comments @ line # insert_comments rest (AList.delete param param_comments)))"

text \<open>Lines 212 to 230: the dumped text with the comments put back, its first character cut.\<close>

definition with_comments :: "string \<Rightarrow> (string \<times> string list) list \<Rightarrow> string" where
  "with_comments settings_yaml param_comments =
     drop 1 (join_nl (insert_comments (split_nl settings_yaml) param_comments))"

text \<open>
  Lines 188 to 230, everything before the temporary file is opened: the text that is to
  be written. \<open>yaml_dump\<close> is the library's \<open>yaml.dump\<close> with the arguments of lines 209
  to 211, a parameter; it yields the text or raises.
\<close>

definition new_settings_text ::
  "((string \<times> pyval) list \<Rightarrow> error + string) \<Rightarrow> string \<Rightarrow> (string \<times> pyval) list
     \<Rightarrow> string option \<Rightarrow> filesystem \<Rightarrow> error + string" where
  "new_settings_text yaml_dump program_path settings_json settings_path fs =
     (case fs (get_config_file settings_path program_path) of
        None \<Rightarrow> Inl FileNotFoundError
      | Some text \<Rightarrow>
          (case get_all_comments (readlines text) [] [] of
             Inl e \<Rightarrow> Inl e
           | Inr param_comments \<Rightarrow>
               (case format_settings settings_json of
                  Inl e \<Rightarrow> Inl e
                | Inr formatted \<Rightarrow>
                    (case yaml_dump formatted of
                       Inl e \<Rightarrow> Inl e
                     | Inr settings_yaml \<Rightarrow> Inr (with_comments settings_yaml param_comments)))))"

text \<open>
  Lines 231 to 234. The result carries every state the file system passes through after
  the call starts: the temporary file \<open>config_file + '~'\<close> is created empty, grows
  character by character (\<open>writelines\<close> over a string), and is renamed over the target. An
  operating-system failure is a parameter: the \<open>open\<close> fails, the write fails after some
  characters, or the rename fails.
\<close>

datatype fault = NoFault | OpenFails | WriteFails nat | RenameFails

definition replace_file ::
  "fault \<Rightarrow> string \<Rightarrow> string \<Rightarrow> filesystem \<Rightarrow> (error + unit) \<times> filesystem list" where
  "replace_file fault config_file settings_yaml fs =
     (let tmp = config_file @ ''~'';
          writing = (\<lambda>n. map (\<lambda>k. fs(tmp \<mapsto> take k settings_yaml)) [0..<Suc n])
      in case fault of
           OpenFails \<Rightarrow> (Inl OSError, [])
         | WriteFails k \<Rightarrow> (Inl OSError, writing (min k (length settings_yaml)))
         | RenameFails \<Rightarrow> (Inl OSError, writing (length settings_yaml))
         | NoFault \<Rightarrow>
             (Inr (), writing (length settings_yaml)
                      @ [(fs(tmp := None))(config_file \<mapsto> settings_yaml)]))"

text \<open>
  \<open>write_settings_to_file\<close> (lines 173 to 234): the outcome and the states of the file
  system, the first being the one the call starts in. Line 188 of the source carries a
  stray token (\<open>(ya\<close>); it is read as the same statement in lines 64 and 125.
\<close>

definition write_settings_to_file ::
  "((string \<times> pyval) list \<Rightarrow> error + string) \<Rightarrow> fault \<Rightarrow> string \<Rightarrow> (string \<times> pyval) list
     \<Rightarrow> string option \<Rightarrow> filesystem \<Rightarrow> (error + unit) \<times> filesystem list" where
  "write_settings_to_file yaml_dump fault program_path settings_json settings_path fs =
     (case new_settings_text yaml_dump program_path settings_json settings_path fs of
        Inl e \<Rightarrow> (Inl e, [fs])
      | Inr settings_yaml \<Rightarrow>
          (case replace_file fault (get_config_file settings_path program_path) settings_yaml fs of
             (r, states) \<Rightarrow> (r, fs # states)))"

subsection \<open>Files with comment blocks\<close>







section \<open>Properties of debug_print\<close>

lemma LEVEL_COLOR_keys: "map fst LEVEL_COLOR = [1, 2, 3, 4, 5, 6, 7, 8, 9, 10]"
  by (simp add: LEVEL_COLOR_def)

lemma LEVEL_COLOR_dom: "map_of LEVEL_COLOR level = None \<longleftrightarrow> level < 1 \<or> 10 < level"
proof -
  have "map_of LEVEL_COLOR level = None \<longleftrightarrow> level \<notin> set (map fst LEVEL_COLOR)"
    by (simp add: map_of_eq_None_iff)
  also have "\<dots> \<longleftrightarrow> level < 1 \<or> 10 < level"
    unfolding LEVEL_COLOR_keys by (simp, arith)
  finally show ?thesis .
qed

text \<open>
  C8. A call whose level is 0 or is any other integer outside the ten keys 1..10 of
  \<open>_LEVEL_COLOR\<close> prints nothing, whatever the threshold \<open>DEBUG\<close> is: when the
  threshold is below the level the body is skipped, otherwise the colour lookup raises
  \<open>KeyError\<close> before the first \<open>print\<close>.
\<close>

theorem debug_print_unmapped_level_silent:
  "level < 1 \<or> 10 < level \<Longrightarrow>
     debug_print DEBUG level message module cls function =
       ([], if DEBUG \<ge> level then Some KeyError else None)"
  using LEVEL_COLOR_dom [of level] by (simp add: debug_print_def)

theorem debug_print_unmapped_level_silent_witness:
  "debug_print 5 0 ''boot'' None None None = ([], Some KeyError)
   \<and> debug_print 20 11 ''boot'' None None None = ([], Some KeyError)
   \<and> debug_print 3 11 ''boot'' None None None = ([], None)"
  using debug_print_unmapped_level_silent [of 0 5 "''boot''" None None None]
    debug_print_unmapped_level_silent [of 11 20 "''boot''" None None None]
    debug_print_unmapped_level_silent [of 11 3 "''boot''" None None None]
  by simp

lemma LEVEL_COLOR_mapped: "1 \<le> level \<Longrightarrow> level \<le> 10 \<Longrightarrow> \<exists>start. map_of LEVEL_COLOR level = Some start"
  using LEVEL_COLOR_dom [of level] by (cases "map_of LEVEL_COLOR level") auto

text \<open>
  C9, as the code has it. The claim's second half promises output for every level from 1
  up to the threshold; with a threshold above 10 the levels 11..threshold have no colour,
  and the call ends in \<open>KeyError\<close> with nothing printed. What holds is: nothing is
  printed (and nothing raised) when the level strictly exceeds the threshold; a block is
  printed for every level from 1 up to the threshold that is one of the ten mapped
  levels; and for a level above 10 that does not exceed the threshold the call raises
  \<open>KeyError\<close> and prints nothing.
\<close>

theorem debug_print_threshold_gating:
  "(DEBUG < level \<longrightarrow>
      debug_print DEBUG level message module cls function = ([], None))
   \<and> (1 \<le> level \<and> level \<le> DEBUG \<and> level \<le> 10 \<longrightarrow>
        fst (debug_print DEBUG level message module cls function) \<noteq> []
        \<and> snd (debug_print DEBUG level message module cls function) = None)
   \<and> (10 < level \<and> level \<le> DEBUG \<longrightarrow>
        debug_print DEBUG level message module cls function = ([], Some KeyError))"
proof (intro conjI impI)
  assume "DEBUG < level"
  then show "debug_print DEBUG level message module cls function = ([], None)"
    by (simp add: debug_print_def)
next
  assume h: "1 \<le> level \<and> level \<le> DEBUG \<and> level \<le> 10"
  then obtain start where "map_of LEVEL_COLOR level = Some start"
    using LEVEL_COLOR_mapped by blast
  with h show "fst (debug_print DEBUG level message module cls function) \<noteq> []"
    and "snd (debug_print DEBUG level message module cls function) = None"
    by (simp_all add: debug_print_def Let_def)
next
  assume h: "10 < level \<and> level \<le> DEBUG"
  then have "map_of LEVEL_COLOR level = None"
    using LEVEL_COLOR_dom [of level] by simp
  with h show "debug_print DEBUG level message module cls function = ([], Some KeyError)"
    by (simp add: debug_print_def)
qed

theorem debug_print_threshold_gating_witness:
  "debug_print 3 5 ''late'' None None None = ([], None)
   \<and> fst (debug_print 3 2 ''late'' None None None) \<noteq> []
   \<and> snd (debug_print 3 2 ''late'' None None None) = None
   \<and> debug_print 20 11 ''late'' None None None = ([], Some KeyError)"
  using debug_print_threshold_gating [of 3 5 "''late''" None None None]
    debug_print_threshold_gating [of 3 2 "''late''" None None None]
    debug_print_threshold_gating [of 20 11 "''late''" None None None]
  by simp

text \<open>
  The claim as stated fails at threshold 11 and level 11: the level lies between 1 and the
  threshold, and the call prints nothing.
\<close>

theorem debug_print_threshold_gating_counterexample:
  "(1::int) \<le> 11 \<and> (11::int) \<le> 11
   \<and> debug_print 11 11 ''late'' None None None = ([], Some KeyError)"
  by (simp add: debug_print_def LEVEL_COLOR_def)

text \<open>
  C10. Whenever a block is printed (the level is one of 1..10 and does not exceed the
  threshold), it is the blank line, the level line, one label line for each of module,
  class and function that is \<open>None\<close> (reading \<open>Module: None\<close>, \<open>Class: None\<close>,
  \<open>Function: None\<close>), the message line and a blank line. A label that is not
  \<open>None\<close> contributes no line, so its text is never used: replacing every supplied
  label by the empty string leaves the whole result unchanged.
\<close>

theorem debug_print_labels_only_when_None:
  "1 \<le> level \<and> level \<le> 10 \<and> level \<le> DEBUG \<Longrightarrow>
     (\<exists>start ending.
        fst (debug_print DEBUG level message module cls function) =
          [[], start @ ''Debug level: '' @ str_int level @ ending]
          @ (if module = None then [start @ ''Module: None'' @ ending] else [])
          @ (if cls = None then [start @ ''Class: None'' @ ending] else [])
          @ (if function = None then [start @ ''Function: None'' @ ending] else [])
          @ [start @ message @ ending, []])
     \<and> debug_print DEBUG level message module cls function =
         debug_print DEBUG level message
           (map_option (\<lambda>_. []) module) (map_option (\<lambda>_. []) cls) (map_option (\<lambda>_. []) function)"
proof -
  assume h: "1 \<le> level \<and> level \<le> 10 \<and> level \<le> DEBUG"
  then obtain start where s: "map_of LEVEL_COLOR level = Some start"
    using LEVEL_COLOR_mapped by blast
  have "fst (debug_print DEBUG level message module cls function) =
          [[], start @ ''Debug level: '' @ str_int level @ (CHR 0x1B # ''[0m'')]
          @ (if module = None then [start @ ''Module: None'' @ (CHR 0x1B # ''[0m'')] else [])
          @ (if cls = None then [start @ ''Class: None'' @ (CHR 0x1B # ''[0m'')] else [])
          @ (if function = None then [start @ ''Function: None'' @ (CHR 0x1B # ''[0m'')] else [])
          @ [start @ message @ (CHR 0x1B # ''[0m''), []]"
    using h s by (simp add: debug_print_def label_line_def format_label_def Let_def)
  then have first: "\<exists>start ending.
        fst (debug_print DEBUG level message module cls function) =
          [[], start @ ''Debug level: '' @ str_int level @ ending]
          @ (if module = None then [start @ ''Module: None'' @ ending] else [])
          @ (if cls = None then [start @ ''Class: None'' @ ending] else [])
          @ (if function = None then [start @ ''Function: None'' @ ending] else [])
          @ [start @ message @ ending, []]"
    by blast
  have second: "debug_print DEBUG level message module cls function =
         debug_print DEBUG level message
           (map_option (\<lambda>_. []) module) (map_option (\<lambda>_. []) cls) (map_option (\<lambda>_. []) function)"
    by (simp add: debug_print_def label_line_def format_label_def Let_def split: option.splits)
  from first second show ?thesis by blast
qed

theorem debug_print_labels_only_when_None_witness:
  "fst (debug_print 4 2 ''msg'' (Some ''settings'') None (Some ''load'')) =
     [[], CHR 0x1B # ''[0;30;42mDebug level: 2'' @ CHR 0x1B # ''[0m'',
      CHR 0x1B # ''[0;30;42mClass: None'' @ CHR 0x1B # ''[0m'',
      CHR 0x1B # ''[0;30;42mmsg'' @ CHR 0x1B # ''[0m'', []]
   \<and> debug_print 4 2 ''msg'' (Some ''settings'') None (Some ''load'') =
       debug_print 4 2 ''msg'' (Some []) None (Some [])"
proof -
  have e: "fst (debug_print 4 2 ''msg'' (Some ''settings'') None (Some ''load'')) =
     [[], CHR 0x1B # ''[0;30;42mDebug level: 2'' @ CHR 0x1B # ''[0m'',
      CHR 0x1B # ''[0;30;42mClass: None'' @ CHR 0x1B # ''[0m'',
      CHR 0x1B # ''[0;30;42mmsg'' @ CHR 0x1B # ''[0m'', []]"
    by (simp add: debug_print_def LEVEL_COLOR_def label_line_def format_label_def str_int_def Let_def)
  show ?thesis
    using e debug_print_labels_only_when_None
      [of 2 4 "''msg''" "Some ''settings''" None "Some ''load''"]
    by simp
qed

section \<open>Properties of the value formatter\<close>

lemma format_path_empty: "format_path [] slash = []"
  by (simp add: format_path_def)

lemma format_path_with_slash:
  "format_path path True = [] \<or> last (format_path path True) = CHR ''/''"
  by (simp add: format_path_def)

lemma format_path_with_slash_idem:
  "format_path (format_path path True) True = format_path path True"
  by (simp add: format_path_def)

lemma format_path_without_slash:
  "format_path path False =
     (if path \<noteq> [] \<and> last path = CHR ''/'' then butlast path else path)"
  by (simp add: format_path_def)

lemma format_value_with_slash:
  "param \<in> set PATH_WITH_SLASH_PARAMETERS \<Longrightarrow> format_value param v = format_path_value v True"
  by (simp add: format_value_def)


lemma format_value_other:
  "param \<notin> set PATH_WITH_SLASH_PARAMETERS \<Longrightarrow> param \<notin> set PATH_WITHOUT_SLASH_PARAMETERS \<Longrightarrow>
     format_value param v =
       (if lower (py_str v) = ''yes'' \<or> lower (py_str v) = ''true'' then Inr (PBool True)
        else if lower (py_str v) = ''no'' \<or> lower (py_str v) = ''false'' then Inr (PBool False)
        else (case py_int v of
                Inr i \<Rightarrow> Inr (PInt i)
              | Inl e \<Rightarrow> if e = TypeError \<or> e = ValueError then Inr v else Inl e))"
  by (simp add: format_value_def)






lemma str_nat_hd: "str_nat n \<noteq> [] \<and> hd (str_nat n) \<in> set ''0123456789''"
proof (induction n rule: str_nat.induct)
  case (1 n)
  show ?case
  proof (cases "n < 10")
    case True
    then have s: "str_nat n = [''0123456789'' ! n]" by simp
    from True have "n < length ''0123456789''" by simp
    then have "''0123456789'' ! n \<in> set ''0123456789''"
      by (rule nth_mem)
    with s show ?thesis by simp
  next
    case False
    then have s: "str_nat n = str_nat (n div 10) @ [''0123456789'' ! (n mod 10)]" by simp
    from False 1 have "str_nat (n div 10) \<noteq> [] \<and> hd (str_nat (n div 10)) \<in> set ''0123456789''"
      by simp
    with s show ?thesis by simp
  qed
qed

lemma str_int_hd: "str_int i \<noteq> [] \<and> hd (str_int i) \<in> set ''-0123456789''"
proof (cases "i < 0")
  case True
  then show ?thesis by (simp add: str_int_def)
next
  case False
  with str_nat_hd [of "nat i"] show ?thesis by (simp add: str_int_def)
qed

lemma lower_char_sign_digit: "c \<in> set ''-0123456789'' \<Longrightarrow> lower_char c = c"
  by (auto simp: lower_char_def)

lemma lower_str_int_hd: "lower (str_int i) \<noteq> [] \<and> hd (lower (str_int i)) \<in> set ''-0123456789''"
proof -
  obtain c cs where s: "str_int i = c # cs" and c: "c \<in> set ''-0123456789''"
    using str_int_hd [of i] by (cases "str_int i") auto
  from c have "lower_char c = c" by (rule lower_char_sign_digit)
  with s c show ?thesis by (simp add: lower_def)
qed

lemma lower_str_int_not_word:
  "lower (str_int i) \<noteq> ''yes''" "lower (str_int i) \<noteq> ''true''"
  "lower (str_int i) \<noteq> ''no''" "lower (str_int i) \<noteq> ''false''"
  using lower_str_int_hd [of i] by auto

lemma lower_True: "lower ''True'' = ''true''"
  by code_simp

lemma lower_False: "lower ''False'' = ''false''"
  by code_simp

lemma format_value_PBool:
  "param \<notin> set PATH_WITH_SLASH_PARAMETERS \<Longrightarrow> param \<notin> set PATH_WITHOUT_SLASH_PARAMETERS \<Longrightarrow>
     format_value param (PBool b) = Inr (PBool b)"
  by (cases b) (simp_all add: format_value_other lower_True lower_False)

lemma format_value_PInt:
  "param \<notin> set PATH_WITH_SLASH_PARAMETERS \<Longrightarrow> param \<notin> set PATH_WITHOUT_SLASH_PARAMETERS \<Longrightarrow>
     format_value param (PInt i) = Inr (PInt i)"
  by (simp add: format_value_other lower_str_int_not_word)

text \<open>
  Outside the never-slash class the formatter is idempotent: formatting a formatted value
  gives it back.
\<close>

lemma format_value_idem_outside_never_slash:
  assumes "param \<notin> set PATH_WITHOUT_SLASH_PARAMETERS" and "format_value param v = Inr v'"
  shows "format_value param v' = Inr v'"
proof (cases "param \<in> set PATH_WITH_SLASH_PARAMETERS")
  case True
  with assms(2) obtain s where "v = PStr s" "v' = PStr (format_path s True)"
    by (cases v) (auto simp: format_value_with_slash)
  with True show ?thesis
    by (simp add: format_value_with_slash format_path_with_slash_idem)
next
  case False
  note o = format_value_other [OF False assms(1)]
  consider (t) "lower (py_str v) = ''yes'' \<or> lower (py_str v) = ''true''"
    | (f) "\<not> (lower (py_str v) = ''yes'' \<or> lower (py_str v) = ''true'')"
          "lower (py_str v) = ''no'' \<or> lower (py_str v) = ''false''"
    | (i) i where "\<not> (lower (py_str v) = ''yes'' \<or> lower (py_str v) = ''true'')"
          "\<not> (lower (py_str v) = ''no'' \<or> lower (py_str v) = ''false'')" "py_int v = Inr i"
    | (n) e where "\<not> (lower (py_str v) = ''yes'' \<or> lower (py_str v) = ''true'')"
          "\<not> (lower (py_str v) = ''no'' \<or> lower (py_str v) = ''false'')" "py_int v = Inl e"
    by (cases "py_int v") auto
  then show ?thesis
  proof cases
    case t
    with assms(2) have "v' = PBool True" by (simp add: o)
    then show ?thesis by (simp add: format_value_PBool False assms(1))
  next
    case f
    with assms(2) have "v' = PBool False" by (simp add: o)
    then show ?thesis by (simp add: format_value_PBool False assms(1))
  next
    case i
    with assms(2) have "v' = PInt i" by (simp add: o)
    then show ?thesis by (simp add: format_value_PInt False assms(1))
  next
    case n
    with assms(2) have "v' = v" by (simp add: o split: if_splits)
    with assms(2) show ?thesis by simp
  qed
qed

text \<open>
  The never-slash branch removes one trailing separator: the result ends with none unless
  the path ended with two.
\<close>

lemma format_path_never_slash_single:
  assumes "\<not> (\<exists>q. path = q @ ''//'')"
  shows "format_path path False = [] \<or> last (format_path path False) \<noteq> CHR ''/''"
proof (cases path rule: rev_cases)
  case Nil
  then show ?thesis by (simp add: format_path_def)
next
  case (snoc ys y)
  show ?thesis
  proof (cases "y = CHR ''/''")
    case False
    with snoc show ?thesis by (simp add: format_path_def)
  next
    case True
    with snoc have fp: "format_path path False = ys" by (simp add: format_path_def)
    show ?thesis
    proof (cases ys rule: rev_cases)
      case Nil
      with fp show ?thesis by simp
    next
      case (snoc zs z)
      have "z \<noteq> CHR ''/''"
      proof
        assume "z = CHR ''/''"
        with snoc True \<open>path = ys @ [y]\<close> have "path = zs @ ''//''" by simp
        with assms show False by blast
      qed
      with snoc fp show ?thesis by simp
    qed
  qed
qed

text \<open>
  C6. The path-formatting postcondition fails for the never-slash class: \<open>MESSAGE_LOG\<close>
  is in \<open>__PATH_WITHOUT_SLASH_PARAMETERS\<close>, whose docstring says its parameters will
  never end with a slash, and the value \<open>logs//\<close> formats to \<open>logs/\<close>, which ends with
  the separator. The lemmas above give what does hold: the always-slash result is empty or
  ends with the separator, the empty string stays empty, and the never-slash result ends
  with no separator unless the path ended with two.
\<close>

theorem format_value_never_slash_keeps_slash:
  "''MESSAGE_LOG'' \<in> set PATH_WITHOUT_SLASH_PARAMETERS
   \<and> format_value ''MESSAGE_LOG'' (PStr ''logs//'') = Inr (PStr ''logs/'')
   \<and> last ''logs/'' = CHR ''/''"
  by (simp add: format_value_def format_path_def
      PATH_WITH_SLASH_PARAMETERS_def PATH_WITHOUT_SLASH_PARAMETERS_def)

text \<open>
  C7. Idempotence fails in the never-slash class, by the same single-slash removal:
  \<open>/var/log//\<close> under \<open>ERROR_LOG\<close> formats to \<open>/var/log/\<close>, and that formats to
  \<open>/var/log\<close>. Outside that class the formatter is idempotent
  (\<open>format_value_idem_outside_never_slash\<close>).
\<close>

theorem format_value_not_idempotent:
  "format_value ''ERROR_LOG'' (PStr ''/var/log//'') = Inr (PStr ''/var/log/'')
   \<and> format_value ''ERROR_LOG'' (PStr ''/var/log/'') = Inr (PStr ''/var/log'')
   \<and> PStr ''/var/log/'' \<noteq> PStr ''/var/log''"
  by (simp add: format_value_def format_path_def
      PATH_WITH_SLASH_PARAMETERS_def PATH_WITHOUT_SLASH_PARAMETERS_def)

section \<open>Properties of loading\<close>

text \<open>
  C2, as the code has it. When the config file is missing the call fails with
  \<open>FileNotFoundError\<close>, and when its text is not valid YAML with the loader's
  \<open>YAMLError\<close>. On such a call no setting is installed: every attribute other than
  \<open>PROGRAM_PATH\<close> keeps its value. \<open>PROGRAM_PATH\<close> itself is assigned the program's
  directory by the first statement (line 64), before the file is opened, so it is
  modified on the failing call too.
\<close>

theorem load_failure_state:
  "(fs (get_config_file settings_path program_path) = None \<longrightarrow>
      load_settings_from_yaml yaml_load program_path settings_path fs st =
        (Inl FileNotFoundError, st(''PROGRAM_PATH'' \<mapsto> PStr program_path)))
   \<and> (fs (get_config_file settings_path program_path) = Some content \<and> yaml_load content = None \<longrightarrow>
        load_settings_from_yaml yaml_load program_path settings_path fs st =
          (Inl YAMLError, st(''PROGRAM_PATH'' \<mapsto> PStr program_path)))
   \<and> ((fs (get_config_file settings_path program_path) = None
         \<or> (fs (get_config_file settings_path program_path) = Some content \<and> yaml_load content = None)) \<longrightarrow>
        (\<forall>name. name \<noteq> ''PROGRAM_PATH'' \<longrightarrow>
           snd (load_settings_from_yaml yaml_load program_path settings_path fs st) name = st name))"
  by (auto simp: load_settings_from_yaml_def Let_def)

theorem load_failure_state_witness:
  "load_settings_from_yaml reject_all ''/opt/zipato/'' None Map.empty initial_attrs =
     (Inl FileNotFoundError, initial_attrs(''PROGRAM_PATH'' \<mapsto> PStr ''/opt/zipato/''))
   \<and> load_settings_from_yaml reject_all ''/opt/zipato/'' (Some ''/etc'')
        [''/etc/zipatoserver.conf'' \<mapsto> ''a: [''] [''DEBUG'' \<mapsto> PInt 3] =
     (Inl YAMLError, [''DEBUG'' \<mapsto> PInt 3, ''PROGRAM_PATH'' \<mapsto> PStr ''/opt/zipato/''])
   \<and> snd (load_settings_from_yaml reject_all ''/opt/zipato/'' (Some ''/etc'')
        [''/etc/zipatoserver.conf'' \<mapsto> ''a: [''] [''DEBUG'' \<mapsto> PInt 3]) ''DEBUG'' = Some (PInt 3)"
proof -
  have c: "get_config_file (Some ''/etc'') ''/opt/zipato/'' = ''/etc/zipatoserver.conf''"
    by (simp add: get_config_file_def format_path_def CONFIG_FILE_def)
  have 1: "load_settings_from_yaml reject_all ''/opt/zipato/'' None Map.empty initial_attrs =
     (Inl FileNotFoundError, initial_attrs(''PROGRAM_PATH'' \<mapsto> PStr ''/opt/zipato/''))"
    using load_failure_state [where fs = Map.empty and settings_path = None
        and program_path = "''/opt/zipato/''" and yaml_load = reject_all and st = initial_attrs
        and content = "[]"]
    by simp
  have 2: "load_settings_from_yaml reject_all ''/opt/zipato/'' (Some ''/etc'')
        [''/etc/zipatoserver.conf'' \<mapsto> ''a: [''] [''DEBUG'' \<mapsto> PInt 3] =
     (Inl YAMLError, [''DEBUG'' \<mapsto> PInt 3, ''PROGRAM_PATH'' \<mapsto> PStr ''/opt/zipato/''])"
    using load_failure_state [where fs = "[''/etc/zipatoserver.conf'' \<mapsto> ''a: ['']"
        and settings_path = "Some ''/etc''" and program_path = "''/opt/zipato/''"
        and content = "''a: [''" and yaml_load = reject_all and st = "[''DEBUG'' \<mapsto> PInt 3]"] c
    by (simp add: reject_all_def)
  from 1 2 show ?thesis by simp
qed

text \<open>
  The claim as stated fails for \<open>PROGRAM_PATH\<close>: with the file missing, the call raises
  \<open>FileNotFoundError\<close> and \<open>PROGRAM_PATH\<close> has changed from \<open>None\<close> to the program's
  directory.
\<close>

theorem load_failure_state_counterexample:
  "fst (load_settings_from_yaml reject_all ''/opt/zipato/'' None Map.empty initial_attrs)
     = Inl FileNotFoundError
   \<and> initial_attrs ''PROGRAM_PATH'' = Some PNone
   \<and> snd (load_settings_from_yaml reject_all ''/opt/zipato/'' None Map.empty initial_attrs)
        ''PROGRAM_PATH'' = Some (PStr ''/opt/zipato/'')"
  by (simp add: load_settings_from_yaml_def initial_attrs_def Let_def)

section \<open>Properties of writing\<close>

subsection \<open>Replacing the file\<close>

lemma writing_last: "last (map g [0..<Suc n]) = g n"
  by simp

lemma writing_nonempty: "map g [0..<Suc n] \<noteq> []"
  by simp

lemma writing_frame:
  "s \<in> set (map (\<lambda>k. fs(tmp \<mapsto> take k settings_yaml)) [0..<Suc n]) \<Longrightarrow> p \<noteq> tmp \<Longrightarrow> s p = fs p"
  by auto

lemma replace_file_states:
  assumes "replace_file fault config_file settings_yaml fs = (r, states)"
  shows "(\<forall>s \<in> set (butlast (fs # states)). \<forall>p. p \<noteq> config_file @ ''~'' \<longrightarrow> s p = fs p)
    \<and> (r = Inr () \<longrightarrow>
          last (butlast (fs # states)) (config_file @ ''~'') = Some settings_yaml
          \<and> last (fs # states) config_file = Some settings_yaml
          \<and> last (fs # states) (config_file @ ''~'') = None)
    \<and> (r \<noteq> Inr () \<longrightarrow> last (fs # states) config_file = fs config_file)"
proof -
  define tmp where "tmp = config_file @ ''~''"
  define w where "w = (\<lambda>n. map (\<lambda>k. fs(tmp \<mapsto> take k settings_yaml)) [0..<Suc n])"
  have wl: "last (w n) = fs(tmp \<mapsto> take n settings_yaml)" for n
    unfolding w_def by (rule writing_last)
  have wn: "w n \<noteq> []" for n
    unfolding w_def by (rule writing_nonempty)
  have wf: "s p = fs p" if "s \<in> set (w n)" "p \<noteq> tmp" for s p n
    using that unfolding w_def by (rule writing_frame)
  have ne: "tmp \<noteq> config_file" unfolding tmp_def by simp
  show ?thesis
  proof (cases fault)
    case NoFault
    with assms have r: "r = Inr ()"
      and st: "states = w (length settings_yaml) @ [(fs(tmp := None))(config_file \<mapsto> settings_yaml)]"
      by (simp_all add: replace_file_def Let_def tmp_def w_def del: upt_Suc)
    have b: "butlast (fs # states) = fs # w (length settings_yaml)"
      unfolding st by (simp add: butlast_append)
    have 1: "\<forall>s \<in> set (butlast (fs # states)). \<forall>p. p \<noteq> tmp \<longrightarrow> s p = fs p"
      unfolding b using wf by auto
    have 2: "last (butlast (fs # states)) tmp = Some settings_yaml"
      unfolding b using wn wl by simp
    have 3: "last (fs # states) config_file = Some settings_yaml"
      unfolding st by simp
    have 4: "last (fs # states) tmp = None"
      unfolding st using ne by simp
    from r 1 2 3 4 show ?thesis unfolding tmp_def by simp
  next
    case OpenFails
    with assms have "r = Inl OSError" "states = []"
      by (simp_all add: replace_file_def Let_def)
    then show ?thesis by simp
  next
    case (WriteFails k)
    with assms have r: "r = Inl OSError" and st: "states = w (min k (length settings_yaml))"
      by (simp_all add: replace_file_def Let_def tmp_def w_def del: upt_Suc)
    have 1: "\<forall>s \<in> set (butlast (fs # states)). \<forall>p. p \<noteq> tmp \<longrightarrow> s p = fs p"
      unfolding st using wf by (auto dest!: in_set_butlastD)
    have 2: "last (fs # states) config_file = fs config_file"
      unfolding st using wn wl ne by simp
    from r 1 2 show ?thesis unfolding tmp_def by simp
  next
    case RenameFails
    with assms have r: "r = Inl OSError" and st: "states = w (length settings_yaml)"
      by (simp_all add: replace_file_def Let_def tmp_def w_def del: upt_Suc)
    have 1: "\<forall>s \<in> set (butlast (fs # states)). \<forall>p. p \<noteq> tmp \<longrightarrow> s p = fs p"
      unfolding st using wf by (auto dest!: in_set_butlastD)
    have 2: "last (fs # states) config_file = fs config_file"
      unfolding st using wn wl ne by simp
    from r 1 2 show ?thesis unfolding tmp_def by simp
  qed
qed

text \<open>
  C3. \<open>write_settings_to_file\<close> writes the complete new text to the sibling file
  \<open>config_file + '~'\<close> and then renames it over the target. In every state of the file
  system before the last one the target holds what it held when the call started, so a
  reader of the target never sees a partly written file. When the call returns, the
  state just before the rename holds the complete new text in the temporary file, and
  the last state holds that text at the target and no temporary file. When the call
  raises, at whatever step (reading the old file, the comment scan, the formatting, the
  dump, opening or writing the temporary file, or the rename itself), the target holds
  in the last state too what it held at the start. The rename is one step of the file
  system, as \<open>os.rename\<close> is on one POSIX volume.
\<close>

theorem write_settings_atomic_replace:
  assumes "write_settings_to_file yaml_dump fault program_path settings_json settings_path fs
             = (r, states)"
  shows "states \<noteq> [] \<and> hd states = fs
    \<and> (\<forall>s \<in> set (butlast states).
          s (get_config_file settings_path program_path)
            = fs (get_config_file settings_path program_path))
    \<and> (r = Inr () \<longrightarrow>
          (\<exists>content.
             new_settings_text yaml_dump program_path settings_json settings_path fs = Inr content
             \<and> last (butlast states) (get_config_file settings_path program_path @ ''~'')
                 = Some content
             \<and> last states (get_config_file settings_path program_path) = Some content
             \<and> last states (get_config_file settings_path program_path @ ''~'') = None))
    \<and> (r \<noteq> Inr () \<longrightarrow>
          last states (get_config_file settings_path program_path)
            = fs (get_config_file settings_path program_path))"
proof (cases "new_settings_text yaml_dump program_path settings_json settings_path fs")
  case (Inl e)
  with assms have "r = Inl e" "states = [fs]"
    by (simp_all add: write_settings_to_file_def)
  then show ?thesis by simp
next
  case (Inr content)
  obtain r' rest where rf:
    "replace_file fault (get_config_file settings_path program_path) content fs = (r', rest)"
    by (cases "replace_file fault (get_config_file settings_path program_path) content fs")
  with assms Inr have r: "r = r'" and st: "states = fs # rest"
    by (simp_all add: write_settings_to_file_def)
  note p = replace_file_states [OF rf]
  have ne: "get_config_file settings_path program_path
              \<noteq> get_config_file settings_path program_path @ ''~''"
    by simp
  from p ne have 1: "\<forall>s \<in> set (butlast states).
          s (get_config_file settings_path program_path)
            = fs (get_config_file settings_path program_path)"
    unfolding st by blast
  from p Inr r st 1 show ?thesis by simp
qed


lemma example_config_file: "get_config_file None ''/srv/'' = ''/srv/zipatoserver.conf''"
  by (simp add: get_config_file_def CONFIG_FILE_def)

lemma example_comments:
  "get_all_comments (readlines ''# c\<newline>a: 0\<newline>'') [] [] = Inr [(''a'', [''# c''])]"
  by code_simp

lemma example_with_comments:
  "with_comments ''a: 1\<newline>'' [(''a'', [''# c''])] = ''# c\<newline>a: 1\<newline>''"
  by code_simp

lemma example_format_settings: "format_settings [(''a'', PInt 1)] = Inr [(''a'', PInt 1)]"
  by code_simp

lemma example_new_settings_text:
  "new_settings_text (\<lambda>_. Inr ''a: 1\<newline>'') ''/srv/'' [(''a'', PInt 1)] None
     [''/srv/zipatoserver.conf'' \<mapsto> ''# c\<newline>a: 0\<newline>''] = Inr ''# c\<newline>a: 1\<newline>''"
  by (simp only: new_settings_text_def example_config_file example_comments
        example_format_settings example_with_comments fun_upd_same option.case sum.case)

theorem write_settings_atomic_replace_witness:
  "fst (write_settings_to_file (\<lambda>_. Inr ''a: 1\<newline>'') NoFault ''/srv/'' [(''a'', PInt 1)] None
          [''/srv/zipatoserver.conf'' \<mapsto> ''# c\<newline>a: 0\<newline>'']) = Inr ()
   \<and> last (butlast (snd (write_settings_to_file (\<lambda>_. Inr ''a: 1\<newline>'') NoFault ''/srv/''
          [(''a'', PInt 1)] None [''/srv/zipatoserver.conf'' \<mapsto> ''# c\<newline>a: 0\<newline>''])))
        ''/srv/zipatoserver.conf~'' = Some ''# c\<newline>a: 1\<newline>''
   \<and> last (butlast (snd (write_settings_to_file (\<lambda>_. Inr ''a: 1\<newline>'') NoFault ''/srv/''
          [(''a'', PInt 1)] None [''/srv/zipatoserver.conf'' \<mapsto> ''# c\<newline>a: 0\<newline>''])))
        ''/srv/zipatoserver.conf'' = Some ''# c\<newline>a: 0\<newline>''
   \<and> last (snd (write_settings_to_file (\<lambda>_. Inr ''a: 1\<newline>'') NoFault ''/srv/''
          [(''a'', PInt 1)] None [''/srv/zipatoserver.conf'' \<mapsto> ''# c\<newline>a: 0\<newline>'']))
        ''/srv/zipatoserver.conf'' = Some ''# c\<newline>a: 1\<newline>''
   \<and> last (snd (write_settings_to_file (\<lambda>_. Inr ''a: 1\<newline>'') NoFault ''/srv/''
          [(''a'', PInt 1)] None [''/srv/zipatoserver.conf'' \<mapsto> ''# c\<newline>a: 0\<newline>'']))
        ''/srv/zipatoserver.conf~'' = None
   \<and> fst (write_settings_to_file (\<lambda>_. Inr ''a: 1\<newline>'') (WriteFails 3) ''/srv/''
          [(''a'', PInt 1)] None [''/srv/zipatoserver.conf'' \<mapsto> ''# c\<newline>a: 0\<newline>''])
        = Inl OSError
   \<and> last (snd (write_settings_to_file (\<lambda>_. Inr ''a: 1\<newline>'') (WriteFails 3) ''/srv/''
          [(''a'', PInt 1)] None [''/srv/zipatoserver.conf'' \<mapsto> ''# c\<newline>a: 0\<newline>'']))
        ''/srv/zipatoserver.conf'' = Some ''# c\<newline>a: 0\<newline>''"
proof -
  define fs :: filesystem where "fs = [''/srv/zipatoserver.conf'' \<mapsto> ''# c\<newline>a: 0\<newline>'']"
  define run where "run = (\<lambda>fault. write_settings_to_file (\<lambda>_. Inr ''a: 1\<newline>'') fault ''/srv/''
          [(''a'', PInt 1)] None fs)"
  have t: "new_settings_text (\<lambda>_. Inr ''a: 1\<newline>'') ''/srv/'' [(''a'', PInt 1)] None fs
             = Inr ''# c\<newline>a: 1\<newline>''"
    unfolding fs_def by (rule example_new_settings_text)
  have r1: "fst (run NoFault) = Inr ()"
    by (simp add: run_def write_settings_to_file_def t replace_file_def Let_def split: prod.split)
  have r2: "fst (run (WriteFails 3)) = Inl OSError"
    by (simp add: run_def write_settings_to_file_def t replace_file_def Let_def split: prod.split)
  have n2: "butlast (snd (run NoFault)) \<noteq> []"
    by (simp add: run_def write_settings_to_file_def t replace_file_def Let_def split: prod.split)
  have h: "write_settings_to_file (\<lambda>_. Inr ''a: 1\<newline>'') fault ''/srv/'' [(''a'', PInt 1)] None fs
             = (fst (run fault), snd (run fault))" for fault
    by (simp add: run_def)
  have a: "last (butlast (snd (run NoFault))) ''/srv/zipatoserver.conf~'' = Some ''# c\<newline>a: 1\<newline>''
     \<and> last (butlast (snd (run NoFault))) ''/srv/zipatoserver.conf'' = fs ''/srv/zipatoserver.conf''
     \<and> last (snd (run NoFault)) ''/srv/zipatoserver.conf'' = Some ''# c\<newline>a: 1\<newline>''
     \<and> last (snd (run NoFault)) ''/srv/zipatoserver.conf~'' = None"
    using write_settings_atomic_replace [OF h [of NoFault]] r1 t n2 last_in_set [OF n2]
    by (simp add: example_config_file)
  have b: "last (snd (run (WriteFails 3))) ''/srv/zipatoserver.conf'' = fs ''/srv/zipatoserver.conf''"
    using write_settings_atomic_replace [OF h [of "WriteFails 3"]] r2
    by (simp add: example_config_file)
  have f: "fs ''/srv/zipatoserver.conf'' = Some ''# c\<newline>a: 0\<newline>''"
    by (simp add: fs_def)
  from r1 r2 a b f show ?thesis
    unfolding run_def fs_def by simp
qed

subsection \<open>The comment scan\<close>



















subsection \<open>Loading, then writing\<close>

lemma example_trailing_comment:
  "get_all_comments (readlines ''a: 1\<newline># end\<newline>'') [] [] = Inl IndexError"
  by code_simp

text \<open>
  C1. The round trip does not go through for every settings file. The file with the two
  lines \<open>a: 1\<close> and \<open># end\<close> is a YAML mapping and loads as \<open>{a: 1}\<close>. Writing that
  mapping back raises \<open>IndexError\<close>: the scan reaches the comment in the last line and
  line 200 reads \<open>lines[i+1]\<close>, one past the end. This holds whatever \<open>yaml.dump\<close> would
  return and whatever the operating system does, since the call never gets that far;
  the file system is left as it was.
\<close>

theorem round_trip_trailing_comment:
  "load_settings_from_yaml (\<lambda>content. Some (YMapping [(''a'', PInt 1)])) ''/srv/'' None
      [''/srv/zipatoserver.conf'' \<mapsto> ''a: 1\<newline># end\<newline>''] initial_attrs
     = (Inr (), initial_attrs(''PROGRAM_PATH'' \<mapsto> PStr ''/srv/'', ''a'' \<mapsto> PInt 1))
   \<and> write_settings_to_file yaml_dump fault ''/srv/'' [(''a'', PInt 1)] None
        [''/srv/zipatoserver.conf'' \<mapsto> ''a: 1\<newline># end\<newline>'']
     = (Inl IndexError, [[''/srv/zipatoserver.conf'' \<mapsto> ''a: 1\<newline># end\<newline>'']])"
proof -
  have a: "''a'' \<notin> set PATH_WITH_SLASH_PARAMETERS" "''a'' \<notin> set PATH_WITHOUT_SLASH_PARAMETERS"
    by (simp_all add: PATH_WITH_SLASH_PARAMETERS_def PATH_WITHOUT_SLASH_PARAMETERS_def)
  have 1: "load_settings_from_yaml (\<lambda>content. Some (YMapping [(''a'', PInt 1)])) ''/srv/'' None
      [''/srv/zipatoserver.conf'' \<mapsto> ''a: 1\<newline># end\<newline>''] initial_attrs
     = (Inr (), initial_attrs(''PROGRAM_PATH'' \<mapsto> PStr ''/srv/'', ''a'' \<mapsto> PInt 1))"
    by (simp add: load_settings_from_yaml_def Let_def example_config_file
          format_value_PInt [OF a])
  have "new_settings_text yaml_dump ''/srv/'' [(''a'', PInt 1)] None
          [''/srv/zipatoserver.conf'' \<mapsto> ''a: 1\<newline># end\<newline>''] = Inl IndexError"
    by (simp only: new_settings_text_def example_config_file example_trailing_comment
          fun_upd_same option.case sum.case)
  then have 2: "write_settings_to_file yaml_dump fault ''/srv/'' [(''a'', PInt 1)] None
        [''/srv/zipatoserver.conf'' \<mapsto> ''a: 1\<newline># end\<newline>'']
     = (Inl IndexError, [[''/srv/zipatoserver.conf'' \<mapsto> ''a: 1\<newline># end\<newline>'']])"
    by (simp add: write_settings_to_file_def)
  from 1 2 show ?thesis by simp
qed

end
